theory Spec2Isabelle
  imports Main "HOL-Library.Char_ord" "HOL-Library.List_Lexorder" "HOL-Library.Product_Lexorder"
begin

section \<open>The COVID dashboard notebook: data model\<close>

text \<open>
  The notebook \<^verbatim>\<open>dashboards-2.ipynb\<close> loads a CSV of COVID-19 time series, aggregates it
  with pandas and shows it in a dashboard class \<^verbatim>\<open>GreatCovidDashboard\<close>.

  Modelling decisions, all of them about values the notebook gets from its libraries:
  \<^item> The \<^verbatim>\<open>Date\<close> column holds calendar days. A day is an \<open>int\<close> (a day number), a
    pandas Timestamp of that column is the same day at midnight, so \<^verbatim>\<open>.date()\<close> and
    \<^verbatim>\<open>.dt.date\<close> keep the number, and \<^verbatim>\<open>dt.timedelta(days=1)\<close> is \<open>1\<close>. The date of
    an empty column (\<^verbatim>\<open>NaT\<close>) is \<open>None\<close>.
  \<^item> The counts are Python integers (\<open>int\<close>).
  \<^item> Floating point numbers (latitude, longitude, the result of \<^verbatim>\<open>np.log10\<close>) are values
    of a type parameter \<open>'f\<close>: the notebook only carries them around. A missing cell of a
    float column is \<open>None\<close>.
  \<^item> A data frame with the default index \<open>0, 1, 2, ...\<close> is the list of its rows.
\<close>

text \<open>The Python exceptions that the modelled code can raise.\<close>

datatype error =
  NetworkError | ParseError | KeyError | ValueError | TypeError | IndexingError | ValidationError

text \<open>
  A row of the CSV after \<^verbatim>\<open>read_csv(...).rename(columns={"Province/State": "State",
  "Country/Region": "Country"})\<close>.
\<close>

record 'f raw_row =
  csv_Date :: int
  csv_Country :: string
  csv_State :: "string option"
  csv_Confirmed :: int
  csv_Recovered :: int
  csv_Deaths :: int
  csv_Lat :: "'f option"
  csv_Long :: "'f option"

text \<open>A row of the aggregated frame that \<^verbatim>\<open>get_covid_data\<close> returns.\<close>

record 'f row =
  Country :: string
  Date :: int
  Confirmed :: int
  Recovered :: int
  Deaths :: int
  Lat :: "'f option"
  Long :: "'f option"
  iso_alpha :: "string option"

text \<open>
  What is outside the dashboard object: the clock (what the \<open>n\<close>-th call of
  \<^verbatim>\<open>dt.date.today()\<close> returns) and the number of calls made, the server of the CSV (what the
  \<open>n\<close>-th download returns: the rows, or the exception of \<^verbatim>\<open>pd.read_csv\<close>) and the number
  of downloads made, the table of the \<^verbatim>\<open>iso3166\<close> package (country name to alpha-3 code),
  \<^verbatim>\<open>np.log10\<close> on a count, and the records of the logger \<^verbatim>\<open>"GreatCovidDashboard"\<close>.
\<close>

record 'f world =
  clock :: "nat \<Rightarrow> int"
  clock_reads :: nat
  remote :: "nat \<Rightarrow> error + 'f raw_row list"
  requests :: nat
  iso3166 :: "string \<Rightarrow> string option"
  np_log10 :: "int \<Rightarrow> 'f"
  logger :: "string list"

section \<open>The loader\<close>

text \<open>
  \<^verbatim>\<open>iso3166.countries.get(country)\<close> raises \<^verbatim>\<open>KeyError\<close> for a name that the table does not
  hold; \<^verbatim>\<open>.alpha3\<close> reads the code of the entry found.
\<close>

definition countries_get_alpha3 :: "(string \<Rightarrow> string option) \<Rightarrow> string \<Rightarrow> error + string" where
  "countries_get_alpha3 tbl country =
     (case tbl country of None \<Rightarrow> Inl KeyError | Some a \<Rightarrow> Inr a)"

text \<open>
  \<^verbatim>\<open>
  def country_alpha3(country):
      try:
          return iso3166.countries.get(country).alpha3
      except KeyError:
          return None
  \<close>
  The result is the code, \<open>None\<close> of Python (here \<open>Inr None\<close>), or an exception other than
  \<^verbatim>\<open>KeyError\<close>, which the handler lets through.
\<close>

definition country_alpha3 :: "(string \<Rightarrow> string option) \<Rightarrow> string \<Rightarrow> error + string option" where
  "country_alpha3 tbl country =
     (case countries_get_alpha3 tbl country of
        Inr a \<Rightarrow> Inr (Some a)
      | Inl KeyError \<Rightarrow> Inr None
      | Inl e \<Rightarrow> Inl e)"

text \<open>\<^verbatim>\<open>agg("first")\<close>: the first cell of the group that is not missing.\<close>

fun first_valid :: "'a option list \<Rightarrow> 'a option" where
  "first_valid [] = None"
| "first_valid (Some v # cells) = Some v"
| "first_valid (None # cells) = first_valid cells"

definition group_key :: "'f raw_row \<Rightarrow> string \<times> int" where
  "group_key r = (csv_Country r, csv_Date r)"

text \<open>
  One group of \<^verbatim>\<open>groupby(["Country", "Date"])\<close> under
  \<^verbatim>\<open>agg({"Confirmed": "sum", "Recovered": "sum", "Deaths": "sum", "Lat": "first", "Long": "first"})\<close>,
  after \<^verbatim>\<open>reset_index()\<close> has made the two keys columns again. The column \<^verbatim>\<open>iso_alpha\<close> is
  added afterwards.
\<close>

definition agg_group :: "string \<times> int \<Rightarrow> 'f raw_row list \<Rightarrow> 'f row" where
  "agg_group k g =
     \<lparr>Country = fst k, Date = snd k,
      Confirmed = sum_list (map csv_Confirmed g),
      Recovered = sum_list (map csv_Recovered g),
      Deaths = sum_list (map csv_Deaths g),
      Lat = first_valid (map csv_Lat g),
      Long = first_valid (map csv_Long g),
      iso_alpha = None\<rparr>"

text \<open>
  \<^verbatim>\<open>groupby\<close> sorts the group keys (by country, then by date) and keeps, for each key, the
  rows with that key in their order.
\<close>

definition groupby_agg :: "'f raw_row list \<Rightarrow> 'f row list" where
  "groupby_agg raw =
     map (\<lambda>k. agg_group k (filter (\<lambda>r. group_key r = k) raw))
         (sort (remdups (map group_key raw)))"

text \<open>
  \<^verbatim>\<open>.assign(iso_alpha=lambda df: df["Country"].map(country_alpha3))\<close>: the function is called
  on the country of each row in turn; an exception that leaves it ends the whole
  \<^verbatim>\<open>assign\<close>.
\<close>

fun assign_iso_alpha :: "(string \<Rightarrow> string option) \<Rightarrow> 'f row list \<Rightarrow> error + 'f row list" where
  "assign_iso_alpha tbl [] = Inr []"
| "assign_iso_alpha tbl (r # rs) =
     (case country_alpha3 tbl (Country r) of
        Inl e \<Rightarrow> Inl e
      | Inr code \<Rightarrow>
          (case assign_iso_alpha tbl rs of
             Inl e \<Rightarrow> Inl e
           | Inr rs' \<Rightarrow> Inr (r\<lparr>iso_alpha := code\<rparr> # rs')))"

text \<open>\<^verbatim>\<open>pd.read_csv(url, parse_dates=["Date"])\<close>: one download.\<close>

definition read_csv :: "'f world \<Rightarrow> (error + 'f raw_row list) \<times> 'f world" where
  "read_csv w = (remote w (requests w), w\<lparr>requests := Suc (requests w)\<rparr>)"

text \<open>
  \<^verbatim>\<open>
  def get_covid_data():
      covid_data_raw = pd.read_csv(...).rename(...)
      covid_data = (covid_data_raw.groupby(["Country", "Date"]).agg({...})
          .reset_index()
          .assign(iso_alpha=lambda df: df["Country"].map(country_alpha3)))
      return covid_data
  \<close>
\<close>

definition get_covid_data :: "'f world \<Rightarrow> (error + 'f row list) \<times> 'f world" where
  "get_covid_data w =
     (case read_csv w of
        (Inl e, w') \<Rightarrow> (Inl e, w')
      | (Inr covid_data_raw, w') \<Rightarrow>
          (assign_iso_alpha (iso3166 w') (groupby_agg covid_data_raw), w'))"


text \<open>\<^verbatim>\<open>Series.unique()\<close>: the distinct values in the order of their first appearance.\<close>

definition unique :: "'a list \<Rightarrow> 'a list" where
  "unique xs = rev (remdups (rev xs))"

section \<open>The dashboard object\<close>

text \<open>
  The three choices of \<^verbatim>\<open>plotted_variable\<close>
  (\<^verbatim>\<open>param.Selector(default="Confirmed", objects=["Confirmed", "Recovered", "Deaths"])\<close>)
  and the two of \<^verbatim>\<open>plot_type\<close> (\<^verbatim>\<open>objects={"bar": px.bar, "line": px.line}\<close>).
\<close>

datatype variable = Var_Confirmed | Var_Recovered | Var_Deaths

fun variable_name :: "variable \<Rightarrow> string" where
  "variable_name Var_Confirmed = ''Confirmed''"
| "variable_name Var_Recovered = ''Recovered''"
| "variable_name Var_Deaths = ''Deaths''"

text \<open>\<^verbatim>\<open>data[self.plotted_variable]\<close> on one row.\<close>

fun column :: "variable \<Rightarrow> 'f row \<Rightarrow> int" where
  "column Var_Confirmed r = Confirmed r"
| "column Var_Recovered r = Recovered r"
| "column Var_Deaths r = Deaths r"

datatype plot_kind = Bar | Line

text \<open>
  The attributes of a \<^verbatim>\<open>GreatCovidDashboard\<close>: the five parameters, the choice list of
  \<^verbatim>\<open>countries\<close> (\<^verbatim>\<open>self.param.countries.objects\<close>), the bounds of \<^verbatim>\<open>map_plot_date\<close>
  (\<^verbatim>\<open>self.param.map_plot_date.bounds\<close>) and the cached frame \<^verbatim>\<open>self._covid_data\<close>.
\<close>

record 'f dashboard =
  countries :: "string list"
  countries_objects :: "string list"
  plotted_variable :: variable
  use_log_scale :: bool
  plot_type :: plot_kind
  map_plot_date :: int
  map_plot_date_bounds :: "int \<times> int"
  cached_covid_data :: "'f row list"

text \<open>
  An action (a method or a property) of the dashboard takes the world and the object and
  returns its result or the
  exception that left it, with the world and the object as they are then.
\<close>

type_synonym ('a, 'f) action = "'f world \<Rightarrow> 'f dashboard \<Rightarrow> (error + 'a) \<times> 'f world \<times> 'f dashboard"

text \<open>\<^verbatim>\<open>self._logger.info(msg)\<close>.\<close>

definition info :: "string \<Rightarrow> 'f world \<Rightarrow> 'f world" where
  "info msg w = w\<lparr>logger := logger w @ [msg]\<rparr>"

text \<open>
  \<^verbatim>\<open>Series.min()\<close> and \<^verbatim>\<open>Series.max()\<close> of the \<^verbatim>\<open>Date\<close> column: of an empty column they
  are \<^verbatim>\<open>NaT\<close> (here \<open>None\<close>).
\<close>

definition series_min :: "int list \<Rightarrow> int option" where
  "series_min xs = (case xs of [] \<Rightarrow> None | v # vs \<Rightarrow> Some (fold min vs v))"

definition series_max :: "int list \<Rightarrow> int option" where
  "series_max xs = (case xs of [] \<Rightarrow> None | v # vs \<Rightarrow> Some (fold max vs v))"

text \<open>\<^verbatim>\<open>Timestamp.date()\<close>; on \<^verbatim>\<open>NaT\<close> it raises \<^verbatim>\<open>ValueError\<close>.\<close>

definition timestamp_date :: "int option \<Rightarrow> error + int" where
  "timestamp_date t = (case t of None \<Rightarrow> Inl ValueError | Some day \<Rightarrow> Inr day)"

text \<open>
  \<^verbatim>\<open>
  def update_covid_data(self):
      self._logger.info("Loading COVID data")
      self._covid_data = get_covid_data()
      self.param.map_plot_date.bounds = (
          self._covid_data["Date"].min().date(),
          self._covid_data["Date"].max().date(),
      )
      self.param.countries.objects = sorted(self._covid_data["Country"].unique())
  \<close>
\<close>

definition update_covid_data :: "(unit, 'f) action" where
  "update_covid_data w d =
     (let w1 = info ''Loading COVID data'' w in
      case get_covid_data w1 of
        (Inl e, w2) \<Rightarrow> (Inl e, w2, d)
      | (Inr df, w2) \<Rightarrow>
          (let d1 = d\<lparr>cached_covid_data := df\<rparr> in
           case timestamp_date (series_min (map Date df)) of
             Inl e \<Rightarrow> (Inl e, w2, d1)
           | Inr lo \<Rightarrow>
               (case timestamp_date (series_max (map Date df)) of
                  Inl e \<Rightarrow> (Inl e, w2, d1)
                | Inr hi \<Rightarrow>
                    (Inr (), w2,
                     d1\<lparr>map_plot_date_bounds := (lo, hi),
                        countries_objects := sort (unique (map Country df))\<rparr>))))"

text \<open>
  The class attributes: the defaults of the parameters, with the days
  2020-04-01, 2020-01-01 and 2020-05-01 as day numbers (\<^verbatim>\<open>date.toordinal()\<close>). The default of
  a \<^verbatim>\<open>Selector\<close> without one is the first of its objects. \<^verbatim>\<open>self._covid_data = None\<close> is
  overwritten before it is read; the empty frame stands for it.
\<close>

definition class_defaults :: "'f dashboard" where
  "class_defaults =
     \<lparr>countries = [''Czechia''], countries_objects = [''Czechia''],
      plotted_variable = Var_Confirmed, use_log_scale = False, plot_type = Bar,
      map_plot_date = 737516, map_plot_date_bounds = (737425, 737546),
      cached_covid_data = []\<rparr>"

text \<open>
  \<^verbatim>\<open>
  def __init__(self, **params):
      self._logger = logging.getLogger("GreatCovidDashboard")
      self._logger.info("Initializing")
      super().__init__(**params)
      self._covid_data = None
      self.update_covid_data()
      self.map_plot_date = self._covid_data["Date"].max().date()
      self._logger.info("Initialized")
  \<close>
  as the notebook calls it, without arguments. The assignment to \<^verbatim>\<open>map_plot_date\<close> stores the
  upper bound that \<^verbatim>\<open>update_covid_data\<close> has just set.
\<close>

definition init :: "'f world \<Rightarrow> (error + 'f dashboard) \<times> 'f world" where
  "init w =
     (case update_covid_data (info ''Initializing'' w) class_defaults of
        (Inl e, w1, d1) \<Rightarrow> (Inl e, w1)
      | (Inr u, w1, d1) \<Rightarrow>
          (case timestamp_date (series_max (map Date (cached_covid_data d1))) of
             Inl e \<Rightarrow> (Inl e, w1)
           | Inr day \<Rightarrow> (Inr (d1\<lparr>map_plot_date := day\<rparr>), info ''Initialized'' w1)))"

text \<open>
  \<^verbatim>\<open>dt.date.today()\<close>: the day that the next call returns, the world after a call, and the
  call.
\<close>

definition today :: "'f world \<Rightarrow> int" where
  "today w = clock w (clock_reads w)"

definition tick :: "'f world \<Rightarrow> 'f world" where
  "tick w = w\<lparr>clock_reads := Suc (clock_reads w)\<rparr>"

definition dt_date_today :: "'f world \<Rightarrow> int \<times> 'f world" where
  "dt_date_today w = (today w, tick w)"

text \<open>
  \<^verbatim>\<open>timestamp < day\<close> for a pandas Timestamp and a \<^verbatim>\<open>datetime.date\<close>: the days are compared;
  with \<^verbatim>\<open>NaT\<close> on the left the comparison raises \<^verbatim>\<open>TypeError\<close>.
\<close>

definition timestamp_less :: "int option \<Rightarrow> int \<Rightarrow> error + bool" where
  "timestamp_less t day = (case t of None \<Rightarrow> Inl TypeError | Some newest \<Rightarrow> Inr (newest < day))"

text \<open>
  The test of the property \<^verbatim>\<open>covid_data\<close>, for the day that the call of
  \<^verbatim>\<open>dt.date.today()\<close> in it returns:
  \<^verbatim>\<open>self._covid_data["Date"].max() < (dt.date.today() - dt.timedelta(days=1))\<close>.
  It is \<open>Inr True\<close> on a stale frame, \<open>Inr False\<close> on a frame that is not stale, and the
  exception on an empty frame.
\<close>

definition stale :: "'f world \<Rightarrow> 'f dashboard \<Rightarrow> error + bool" where
  "stale w d = timestamp_less (series_max (map Date (cached_covid_data d))) (today w - 1)"

text \<open>
  \<^verbatim>\<open>
  @property
  def covid_data(self):
      if self._covid_data["Date"].max() < (dt.date.today() - dt.timedelta(days=1)):
          self.update_covid_data()
      return self._covid_data
  \<close>
\<close>

definition covid_data :: "('f row list, 'f) action" where
  "covid_data w d =
     (let newest = series_max (map Date (cached_covid_data d));
          (day, w0) = dt_date_today w
      in case timestamp_less newest (day - 1) of
           Inl e \<Rightarrow> (Inl e, w0, d)
         | Inr True \<Rightarrow>
             (case update_covid_data w0 d of
                (Inl e, w', d') \<Rightarrow> (Inl e, w', d')
              | (Inr u, w', d') \<Rightarrow> (Inr (cached_covid_data d'), w', d'))
         | Inr False \<Rightarrow> (Inr (cached_covid_data d), w0, d))"

section \<open>The views\<close>



text \<open>
  \<^verbatim>\<open>frame.loc[mask]\<close> with a boolean column: the mask is aligned on the index of the frame;
  when it lacks a position of the frame pandas raises \<^verbatim>\<open>IndexingError\<close>, otherwise the rows
  at the true positions are kept.
\<close>

definition loc_mask :: "'a list \<Rightarrow> bool list \<Rightarrow> error + 'a list" where
  "loc_mask frame indexer =
     (if length indexer < length frame then Inl IndexingError
      else Inr (map fst (filter snd (zip frame indexer))))"




text \<open>
  The arguments of \<^verbatim>\<open>px.choropleth(...)\<close> in \<^verbatim>\<open>map_plot\<close>. The frame passed is the rows
  selected, with the column that \<^verbatim>\<open>assign\<close> has added, if any (its name and its cells).
\<close>

record 'f choropleth =
  map_data :: "'f row list"
  map_assigned :: "(string \<times> 'f list) option"
  map_locations :: string
  map_color :: string
  map_hover_name :: string
  map_hover_data :: "string list"

text \<open>
  \<^verbatim>\<open>
  @param.depends("plotted_variable", "use_log_scale", "map_plot_date")
  def map_plot(self):
      data = self.covid_data.loc[self.covid_data["Date"].dt.date == self.map_plot_date]
      if self.use_log_scale:
          color_column = f"log({self.plotted_variable})"
          data = data.assign(**{color_column: np.log10(data[self.plotted_variable])})
      else:
          color_column = self.plotted_variable
      return px.choropleth(data, locations="iso_alpha", color=color_column,
          hover_name="Country", hover_data=["Confirmed", "Recovered", "Deaths"],
          color_continuous_scale=px.colors.sequential.Plasma)
  \<close>
\<close>

definition map_plot :: "('f choropleth, 'f) action" where
  "map_plot w d =
     (case covid_data w d of
        (Inl e, w1, d1) \<Rightarrow> (Inl e, w1, d1)
      | (Inr frame, w1, d1) \<Rightarrow>
          (case covid_data w1 d1 of
             (Inl e, w2, d2) \<Rightarrow> (Inl e, w2, d2)
           | (Inr df, w2, d2) \<Rightarrow>
               (case loc_mask frame (map (\<lambda>r. Date r = map_plot_date d2) df) of
                  Inl e \<Rightarrow> (Inl e, w2, d2)
                | Inr data \<Rightarrow>
                    (if use_log_scale d2 then
                       (let color_column = ''log('' @ variable_name (plotted_variable d2) @ '')''
                        in (Inr \<lparr>map_data = data,
                                 map_assigned =
                                   Some (color_column,
                                         map (np_log10 w2) (map (column (plotted_variable d2)) data)),
                                 map_locations = ''iso_alpha'', map_color = color_column,
                                 map_hover_name = ''Country'',
                                 map_hover_data = [''Confirmed'', ''Recovered'', ''Deaths'']\<rparr>,
                            w2, d2))
                     else
                       (Inr \<lparr>map_data = data, map_assigned = None,
                             map_locations = ''iso_alpha'',
                             map_color = variable_name (plotted_variable d2),
                             map_hover_name = ''Country'',
                             map_hover_data = [''Confirmed'', ''Recovered'', ''Deaths'']\<rparr>,
                        w2, d2)))))"



section \<open>Parameter domains and dependencies\<close>

text \<open>The five parameters that the class body declares.\<close>

datatype param_name =
  P_countries | P_plotted_variable | P_use_log_scale | P_plot_type | P_map_plot_date

text \<open>
  The Python values that a caller may try to store in a parameter: a string, a list of
  strings, a boolean, a date, one of the two plotting functions, or \<^verbatim>\<open>None\<close>.
\<close>

datatype py_value =
  Str string | Strs "string list" | Bool bool | Day int | Function plot_kind | Py_None

text \<open>
  The domain that the class body declares for each parameter: \<^verbatim>\<open>ListSelector\<close> (a list of
  members of \<^verbatim>\<open>objects\<close>), \<^verbatim>\<open>Selector\<close> over the three names, \<^verbatim>\<open>Boolean\<close>,
  \<^verbatim>\<open>Selector\<close> over the two plotting functions, \<^verbatim>\<open>Date\<close> within its bounds (both
  included).
\<close>

definition in_domain :: "'f dashboard \<Rightarrow> param_name \<Rightarrow> py_value \<Rightarrow> bool" where
  "in_domain d p v =
     (case (p, v) of
        (P_countries, Strs cs) \<Rightarrow> list_all (\<lambda>c. c \<in> set (countries_objects d)) cs
      | (P_plotted_variable, Str s) \<Rightarrow> s \<in> set [''Confirmed'', ''Recovered'', ''Deaths'']
      | (P_use_log_scale, Bool b) \<Rightarrow> True
      | (P_plot_type, Function k) \<Rightarrow> True
      | (P_map_plot_date, Day t) \<Rightarrow>
          fst (map_plot_date_bounds d) \<le> t \<and> t \<le> snd (map_plot_date_bounds d)
      | _ \<Rightarrow> False)"

text \<open>The attribute assignment itself, for a value of the domain.\<close>

definition store :: "'f dashboard \<Rightarrow> param_name \<Rightarrow> py_value \<Rightarrow> 'f dashboard" where
  "store d p v =
     (case (p, v) of
        (P_countries, Strs cs) \<Rightarrow> d\<lparr>countries := cs\<rparr>
      | (P_plotted_variable, Str s) \<Rightarrow>
          d\<lparr>plotted_variable :=
               (if s = ''Confirmed'' then Var_Confirmed
                else if s = ''Recovered'' then Var_Recovered else Var_Deaths)\<rparr>
      | (P_use_log_scale, Bool b) \<Rightarrow> d\<lparr>use_log_scale := b\<rparr>
      | (P_plot_type, Function k) \<Rightarrow> d\<lparr>plot_type := k\<rparr>
      | (P_map_plot_date, Day t) \<Rightarrow> d\<lparr>map_plot_date := t\<rparr>
      | _ \<Rightarrow> d)"

text \<open>
  Modelled from the spec: the setter of a parameter, which is code of the \<^verbatim>\<open>param\<close> package
  (\<^verbatim>\<open>param.Parameterized\<close>, the base class) and not of the notebook. The spec, section 4.2:
  "exposes \<^verbatim>\<open>update(field, value)\<close> -> fails with ValidationError if value outside declared
  domain", and section 7: "rejected with a validation error; previous valid state
  retained". The declared domains are those of the class body.
\<close>

definition update :: "'f dashboard \<Rightarrow> param_name \<Rightarrow> py_value \<Rightarrow> (error + unit) \<times> 'f dashboard" where
  "update d p v =
     (if in_domain d p v then (Inr (), store d p v) else (Inl ValidationError, d))"

text \<open>The three views that \<^verbatim>\<open>view\<close> puts on the page, in its order.\<close>

datatype view_name = View_selected_day_numbers | View_plot | View_map_plot

definition views :: "view_name list" where
  "views = [View_selected_day_numbers, View_plot, View_map_plot]"

text \<open>
  The dependencies that the decorators declare:
  \<^verbatim>\<open>@param.depends("map_plot_date", "countries")\<close> on \<^verbatim>\<open>selected_day_numbers\<close>,
  \<^verbatim>\<open>@param.depends("countries", "plotted_variable", "use_log_scale", "plot_type")\<close> on
  \<^verbatim>\<open>plot\<close>, \<^verbatim>\<open>@param.depends("plotted_variable", "use_log_scale", "map_plot_date")\<close> on
  \<^verbatim>\<open>map_plot\<close>.
\<close>

fun depends :: "view_name \<Rightarrow> param_name list" where
  "depends View_selected_day_numbers = [P_map_plot_date, P_countries]"
| "depends View_plot = [P_countries, P_plotted_variable, P_use_log_scale, P_plot_type]"
| "depends View_map_plot = [P_plotted_variable, P_use_log_scale, P_map_plot_date]"

text \<open>
  Modelled from the spec: which views are invoked again after a parameter has changed. The
  code that does it is in the \<^verbatim>\<open>panel\<close> and \<^verbatim>\<open>param\<close> packages, not in the notebook. The
  spec, section 9: "each derived view declares the state fields it reads; the state model
  re-invokes only views whose declared dependencies changed".
\<close>

definition recomputed :: "param_name \<Rightarrow> view_name list" where
  "recomputed p = filter (\<lambda>v. p \<in> set (depends v)) views"

section \<open>The spec's words\<close>

text \<open>
  The spec, section 8: "a previously selected date outside the new bounds is clamped to
  the new bound".
\<close>

definition spec_clamp :: "int \<times> int \<Rightarrow> int \<Rightarrow> int" where
  "spec_clamp bounds day = max (fst bounds) (min (snd bounds) day)"

text \<open>
  The spec, section 3: "the loaded dataset is considered stale if its most recent date is
  more than one day older than the current date".
\<close>

definition spec_stale :: "int \<Rightarrow> 'f row list \<Rightarrow> bool" where
  "spec_stale current df = (df \<noteq> [] \<and> current - Max (Date ` set df) > 1)"

section \<open>Example data\<close>

text \<open>
  Floating point values of the examples: a coordinate in degrees, or the value of
  \<^verbatim>\<open>np.log10\<close> at a count, left symbolic.
\<close>

datatype symbolic_float = Degrees int | Log10 int

text \<open>
  A download with the rows of the spec's example (Czechia with 1000 and Slovakia with 500
  confirmed cases on 2020-04-01, day number 737516), a second day for Czechia and a
  country, Kosovo, that the table of ISO codes does not hold.
\<close>

definition april_csv :: "symbolic_float raw_row list" where
  "april_csv =
     [\<lparr>csv_Date = 737516, csv_Country = ''Slovakia'', csv_State = None,
       csv_Confirmed = 500, csv_Recovered = 20, csv_Deaths = 1,
       csv_Lat = Some (Degrees 48), csv_Long = Some (Degrees 19)\<rparr>,
      \<lparr>csv_Date = 737516, csv_Country = ''Czechia'', csv_State = None,
       csv_Confirmed = 1000, csv_Recovered = 50, csv_Deaths = 10,
       csv_Lat = Some (Degrees 49), csv_Long = Some (Degrees 15)\<rparr>,
      \<lparr>csv_Date = 737517, csv_Country = ''Czechia'', csv_State = None,
       csv_Confirmed = 1100, csv_Recovered = 60, csv_Deaths = 12,
       csv_Lat = Some (Degrees 49), csv_Long = Some (Degrees 15)\<rparr>,
      \<lparr>csv_Date = 737517, csv_Country = ''Kosovo'', csv_State = None,
       csv_Confirmed = 100, csv_Recovered = 5, csv_Deaths = 0,
       csv_Lat = None, csv_Long = None\<rparr>]"

definition iso_table :: "string \<Rightarrow> string option" where
  "iso_table = map_of [(''Czechia'', ''CZE''), (''Slovakia'', ''SVK'')]"

text \<open>The world on 2020-04-02 (day 737517), before any download.\<close>

definition april_world :: "symbolic_float world" where
  "april_world =
     \<lparr>clock = (\<lambda>n. 737517), clock_reads = 0, remote = (\<lambda>n. Inr april_csv), requests = 0,
      iso3166 = iso_table, np_log10 = Log10, logger = []\<rparr>"

text \<open>The frame that \<^verbatim>\<open>get_covid_data\<close> makes of that download.\<close>

definition april_frame :: "symbolic_float row list" where
  "april_frame =
     [\<lparr>Country = ''Czechia'', Date = 737516, Confirmed = 1000, Recovered = 50, Deaths = 10,
       Lat = Some (Degrees 49), Long = Some (Degrees 15), iso_alpha = Some ''CZE''\<rparr>,
      \<lparr>Country = ''Czechia'', Date = 737517, Confirmed = 1100, Recovered = 60, Deaths = 12,
       Lat = Some (Degrees 49), Long = Some (Degrees 15), iso_alpha = Some ''CZE''\<rparr>,
      \<lparr>Country = ''Kosovo'', Date = 737517, Confirmed = 100, Recovered = 5, Deaths = 0,
       Lat = None, Long = None, iso_alpha = None\<rparr>,
      \<lparr>Country = ''Slovakia'', Date = 737516, Confirmed = 500, Recovered = 20, Deaths = 1,
       Lat = Some (Degrees 48), Long = Some (Degrees 19), iso_alpha = Some ''SVK''\<rparr>]"

text \<open>
  The dashboard that \<^verbatim>\<open>GreatCovidDashboard()\<close> builds in that world, after the user has
  picked 2020-04-01 in the date picker.
\<close>

definition april_dashboard :: "symbolic_float dashboard" where
  "april_dashboard =
     \<lparr>countries = [''Czechia''], countries_objects = [''Czechia'', ''Kosovo'', ''Slovakia''],
      plotted_variable = Var_Confirmed, use_log_scale = False, plot_type = Bar,
      map_plot_date = 737516, map_plot_date_bounds = (737516, 737517),
      cached_covid_data = april_frame\<rparr>"

text \<open>
  Two weeks later (2020-04-15, day 737530) the server holds a file that starts on
  2020-04-05 (day 737520) and ends on 2020-04-14 (day 737529).
\<close>

definition later_csv :: "symbolic_float raw_row list" where
  "later_csv =
     [\<lparr>csv_Date = 737520, csv_Country = ''Czechia'', csv_State = None,
       csv_Confirmed = 1500, csv_Recovered = 100, csv_Deaths = 20,
       csv_Lat = Some (Degrees 49), csv_Long = Some (Degrees 15)\<rparr>,
      \<lparr>csv_Date = 737529, csv_Country = ''Czechia'', csv_State = None,
       csv_Confirmed = 2500, csv_Recovered = 300, csv_Deaths = 40,
       csv_Lat = Some (Degrees 49), csv_Long = Some (Degrees 15)\<rparr>]"

definition later_world :: "symbolic_float world" where
  "later_world =
     \<lparr>clock = (\<lambda>n. 737530), clock_reads = 1, remote = (\<lambda>n. Inr later_csv), requests = 1,
      iso3166 = iso_table, np_log10 = Log10,
      logger = [''Initializing'', ''Loading COVID data'', ''Initialized'']\<rparr>"

definition later_frame :: "symbolic_float row list" where
  "later_frame =
     [\<lparr>Country = ''Czechia'', Date = 737520, Confirmed = 1500, Recovered = 100, Deaths = 20,
       Lat = Some (Degrees 49), Long = Some (Degrees 15), iso_alpha = Some ''CZE''\<rparr>,
      \<lparr>Country = ''Czechia'', Date = 737529, Confirmed = 2500, Recovered = 300, Deaths = 40,
       Lat = Some (Degrees 49), Long = Some (Degrees 15), iso_alpha = Some ''CZE''\<rparr>]"









section \<open>Helper lemmas: the loader, the frame operations, a read\<close>

lemma country_alpha3_total:
  "country_alpha3 tbl c = Inr (tbl c)"
  by (simp add: country_alpha3_def countries_get_alpha3_def split: option.split)

lemma assign_iso_alpha_total:
  "assign_iso_alpha tbl rs = Inr (map (\<lambda>r. r\<lparr>iso_alpha := tbl (Country r)\<rparr>) rs)"
  by (induction rs) (simp_all add: country_alpha3_total)

lemma get_covid_data_loaded:
  assumes "remote w (requests w) = Inr raw"
  shows "get_covid_data w =
           (Inr (map (\<lambda>r. r\<lparr>iso_alpha := iso3166 w (Country r)\<rparr>) (groupby_agg raw)),
            w\<lparr>requests := Suc (requests w)\<rparr>)"
  using assms by (simp add: get_covid_data_def read_csv_def assign_iso_alpha_total)

lemma get_covid_data_failed:
  assumes "remote w (requests w) = Inl e"
  shows "get_covid_data w = (Inl e, w\<lparr>requests := Suc (requests w)\<rparr>)"
  using assms by (simp add: get_covid_data_def read_csv_def)

lemma series_min_Min: "xs \<noteq> [] \<Longrightarrow> series_min xs = Some (Min (set xs))"
  by (cases xs) (simp_all add: series_min_def Min.set_eq_fold [symmetric])

lemma series_max_Max: "xs \<noteq> [] \<Longrightarrow> series_max xs = Some (Max (set xs))"
  by (cases xs) (simp_all add: series_max_def Max.set_eq_fold [symmetric])

lemma series_max_Nil: "series_max [] = None"
  by (simp add: series_max_def)

lemma stale_empty:
  "cached_covid_data d = [] \<Longrightarrow> stale w d = Inl TypeError"
  by (simp add: stale_def timestamp_less_def series_max_Nil)

lemma stale_iff_spec:
  assumes "cached_covid_data d \<noteq> []"
  shows "stale w d = Inr (spec_stale (today w) (cached_covid_data d))"
proof -
  have "series_max (map Date (cached_covid_data d)) = Some (Max (Date ` set (cached_covid_data d)))"
    using assms series_max_Max [of "map Date (cached_covid_data d)"] by simp
  then have "stale w d = Inr (Max (Date ` set (cached_covid_data d)) < today w - 1)"
    by (simp add: stale_def timestamp_less_def)
  moreover have "spec_stale (today w) (cached_covid_data d) \<longleftrightarrow>
           today w - Max (Date ` set (cached_covid_data d)) > 1"
    using assms by (simp only: spec_stale_def simp_thms)
  moreover have "Max (Date ` set (cached_covid_data d)) < today w - 1 \<longleftrightarrow>
      today w - Max (Date ` set (cached_covid_data d)) > 1"
    by linarith
  ultimately show ?thesis by simp
qed

lemma stale_Inr_nonempty: "stale w d = Inr b \<Longrightarrow> cached_covid_data d \<noteq> []"
  using stale_empty [of d w] by auto




lemma groupby_agg_Nil_iff: "groupby_agg raw = [] \<longleftrightarrow> raw = []"
proof -
  have "sort (remdups (map group_key raw)) = [] \<longleftrightarrow> set (sort (remdups (map group_key raw))) = {}"
    by (simp only: set_empty)
  then show ?thesis by (simp add: groupby_agg_def)
qed

lemma loc_mask_map: "loc_mask frame (map P frame) = Inr (filter P frame)"
proof -
  have "map fst (filter snd (zip frame (map P frame))) = filter P frame"
    by (induction frame) simp_all
  then show ?thesis by (simp add: loc_mask_def)
qed



text \<open>The three outcomes of a read of the property.\<close>

lemma covid_data_cases:
  "covid_data w d =
     (case stale w d of
        Inl e \<Rightarrow> (Inl e, tick w, d)
      | Inr True \<Rightarrow>
          (case update_covid_data (tick w) d of
             (Inl e, w', d') \<Rightarrow> (Inl e, w', d')
           | (Inr u, w', d') \<Rightarrow> (Inr (cached_covid_data d'), w', d'))
      | Inr False \<Rightarrow> (Inr (cached_covid_data d), tick w, d))"
  by (simp add: covid_data_def stale_def dt_date_today_def)

lemma covid_data_fresh:
  "stale w d = Inr False \<Longrightarrow> covid_data w d = (Inr (cached_covid_data d), tick w, d)"
  by (simp add: covid_data_cases)

lemma covid_data_empty:
  "cached_covid_data d = [] \<Longrightarrow> covid_data w d = (Inl TypeError, tick w, d)"
  by (simp add: covid_data_cases stale_empty)

lemma covid_data_stale:
  "stale w d = Inr True \<Longrightarrow>
     snd (covid_data w d) = snd (update_covid_data (tick w) d)"
  by (simp add: covid_data_cases split: prod.split sum.split)

lemma tick_fields:
  "clock (tick w) = clock w" "clock_reads (tick w) = Suc (clock_reads w)"
  "remote (tick w) = remote w" "requests (tick w) = requests w"
  "iso3166 (tick w) = iso3166 w" "np_log10 (tick w) = np_log10 w" "logger (tick w) = logger w"
  by (simp_all add: tick_def)

lemma update_covid_data_requests:
  "requests (fst (snd (update_covid_data w d))) = Suc (requests w)"
  by (simp add: update_covid_data_def get_covid_data_def read_csv_def info_def Let_def
      split: prod.split sum.split)

lemma update_covid_data_logger:
  "logger (fst (snd (update_covid_data w d))) = logger w @ [''Loading COVID data'']"
  by (simp add: update_covid_data_def get_covid_data_def read_csv_def info_def Let_def
      split: prod.split sum.split)

lemma update_covid_data_loaded:
  assumes "remote w (requests w) = Inr raw" and "raw \<noteq> []"
  defines "df \<equiv> map (\<lambda>r. r\<lparr>iso_alpha := iso3166 w (Country r)\<rparr>) (groupby_agg raw)"
  shows "update_covid_data w d =
           (Inr (),
            w\<lparr>logger := logger w @ [''Loading COVID data''], requests := Suc (requests w)\<rparr>,
            d\<lparr>cached_covid_data := df,
              map_plot_date_bounds := (Min (Date ` set df), Max (Date ` set df)),
              countries_objects := sort (unique (map Country df))\<rparr>)"
proof -
  have ne: "map Date df \<noteq> []"
    using assms(2) by (simp add: df_def groupby_agg_Nil_iff)
  have load: "get_covid_data (info ''Loading COVID data'' w) =
                (Inr df, w\<lparr>logger := logger w @ [''Loading COVID data''], requests := Suc (requests w)\<rparr>)"
    using get_covid_data_loaded [of "info ''Loading COVID data'' w" raw] assms(1)
    by (simp add: info_def df_def)
  show ?thesis
    using series_min_Min [OF ne] series_max_Max [OF ne]
    by (simp add: update_covid_data_def load timestamp_date_def)
qed

text \<open>
  A download without rows (a file with the header only): the empty frame is stored, then
  \<^verbatim>\<open>.min().date()\<close> raises.
\<close>

lemma update_covid_data_empty:
  assumes "remote w (requests w) = Inr []"
  shows "update_covid_data w d =
           (Inl ValueError,
            w\<lparr>logger := logger w @ [''Loading COVID data''], requests := Suc (requests w)\<rparr>,
            d\<lparr>cached_covid_data := []\<rparr>)"
  using get_covid_data_loaded [of "info ''Loading COVID data'' w" "[]"] assms
  by (simp add: update_covid_data_def info_def groupby_agg_def timestamp_date_def series_min_def)

lemma update_covid_data_failed:
  assumes "remote w (requests w) = Inl e"
  shows "update_covid_data w d =
           (Inl e,
            w\<lparr>logger := logger w @ [''Loading COVID data''], requests := Suc (requests w)\<rparr>, d)"
  using get_covid_data_failed [of "info ''Loading COVID data'' w" e] assms
  by (simp add: update_covid_data_def info_def)

lemma update_covid_data_result:
  assumes "update_covid_data w d = (Inr u, w', d')"
  shows "map_plot_date_bounds d' =
           (Min (Date ` set (cached_covid_data d')), Max (Date ` set (cached_covid_data d')))
         \<and> countries_objects d' = sort (unique (map Country (cached_covid_data d')))
         \<and> fst (get_covid_data (info ''Loading COVID data'' w)) = Inr (cached_covid_data d')
         \<and> cached_covid_data d' \<noteq> []
         \<and> d' = d\<lparr>cached_covid_data := cached_covid_data d',
                  map_plot_date_bounds := map_plot_date_bounds d',
                  countries_objects := countries_objects d'\<rparr>"
proof (cases "remote w (requests w)")
  case (Inl e)
  then show ?thesis using assms update_covid_data_failed [of w e d] by simp
next
  case (Inr raw)
  show ?thesis
  proof (cases "raw = []")
    case True
    then show ?thesis using assms Inr update_covid_data_empty [of w d] by simp
  next
    case False
    have "get_covid_data (info ''Loading COVID data'' w) =
            (Inr (map (\<lambda>r. r\<lparr>iso_alpha := iso3166 w (Country r)\<rparr>) (groupby_agg raw)),
             (info ''Loading COVID data'' w)\<lparr>requests := Suc (requests w)\<rparr>)"
      using get_covid_data_loaded [of "info ''Loading COVID data'' w" raw] Inr
      by (simp add: info_def)
    then show ?thesis
      using assms update_covid_data_loaded [OF Inr False, of d] False
      by (auto simp: groupby_agg_Nil_iff)
  qed
qed

text \<open>
  What a reload and a read leave as they are: every parameter of the dashboard, and the
  clock, the server and the libraries of the world. The cached frame changes only with a
  download.
\<close>

lemma update_covid_data_frame:
  "update_covid_data w d = (r, w', d') \<Longrightarrow>
     d' = d\<lparr>cached_covid_data := cached_covid_data d',
           map_plot_date_bounds := map_plot_date_bounds d',
           countries_objects := countries_objects d'\<rparr> \<and>
     w' = w\<lparr>logger := logger w @ [''Loading COVID data''], requests := Suc (requests w)\<rparr>"
  by (auto simp: update_covid_data_def get_covid_data_def read_csv_def info_def Let_def
      split: prod.splits sum.splits)

lemma covid_data_frame:
  assumes "covid_data w d = (r, w', d')"
  shows "d' = d\<lparr>cached_covid_data := cached_covid_data d',
               map_plot_date_bounds := map_plot_date_bounds d',
               countries_objects := countries_objects d'\<rparr> \<and>
         clock w' = clock w \<and> clock_reads w' = Suc (clock_reads w) \<and>
         remote w' = remote w \<and> iso3166 w' = iso3166 w \<and> np_log10 w' = np_log10 w \<and>
         (requests w' = requests w \<longrightarrow> d' = d \<and> logger w' = logger w)"
proof (cases "stale w d")
  case (Inl e)
  then show ?thesis using assms by (auto simp: covid_data_cases tick_fields)
next
  case (Inr b)
  show ?thesis
  proof (cases b)
    case False
    then show ?thesis using assms Inr by (auto simp: covid_data_cases tick_fields)
  next
    case True
    then obtain r0 where u: "update_covid_data (tick w) d = (r0, w', d')"
      using assms Inr by (auto simp: covid_data_cases split: prod.splits sum.splits)
    have "w' = (tick w)\<lparr>logger := logger (tick w) @ [''Loading COVID data''],
                        requests := Suc (requests (tick w))\<rparr>"
      using update_covid_data_frame [OF u] by blast
    then have "clock w' = clock w" "clock_reads w' = Suc (clock_reads w)"
      "remote w' = remote w" "iso3166 w' = iso3166 w" "np_log10 w' = np_log10 w"
      "requests w' \<noteq> requests w"
      by (simp_all add: tick_def)
    then show ?thesis
      using update_covid_data_frame [OF u] by blast
  qed
qed

lemma covid_data_params:
  assumes "covid_data w d = (r, w', d')"
  shows "countries d' = countries d" "plotted_variable d' = plotted_variable d"
    "use_log_scale d' = use_log_scale d" "plot_type d' = plot_type d"
    "map_plot_date d' = map_plot_date d" "np_log10 w' = np_log10 w"
proof -
  let ?d = "d\<lparr>cached_covid_data := cached_covid_data d',
               map_plot_date_bounds := map_plot_date_bounds d',
               countries_objects := countries_objects d'\<rparr>"
  have e: "d' = ?d" and l: "np_log10 w' = np_log10 w"
    using covid_data_frame [OF assms] by blast+
  have "countries ?d = countries d" "plotted_variable ?d = plotted_variable d"
    "use_log_scale ?d = use_log_scale d" "plot_type ?d = plot_type d"
    "map_plot_date ?d = map_plot_date d"
    by simp_all
  then show "countries d' = countries d" "plotted_variable d' = plotted_variable d"
    "use_log_scale d' = use_log_scale d" "plot_type d' = plot_type d"
    "map_plot_date d' = map_plot_date d"
    using e by metis+
  show "np_log10 w' = np_log10 w" by (rule l)
qed

lemma covid_data_returns_cached:
  "covid_data w d = (Inr frame, w', d') \<Longrightarrow> cached_covid_data d' = frame \<and> frame \<noteq> []"
proof -
  assume r: "covid_data w d = (Inr frame, w', d')"
  show ?thesis
  proof (cases "stale w d")
    case (Inl e)
    then show ?thesis using r by (simp add: covid_data_cases)
  next
    case (Inr b)
    show ?thesis
    proof (cases b)
      case False
      then show ?thesis
        using r Inr stale_Inr_nonempty [of w d False] by (auto simp: covid_data_cases)
    next
      case True
      then obtain u where "update_covid_data (tick w) d = (Inr u, w', d')"
        and "cached_covid_data d' = frame"
        using r Inr by (auto simp: covid_data_cases split: prod.splits sum.splits)
      then show ?thesis
        using update_covid_data_result [of "tick w" d u w' d'] by auto
    qed
  qed
qed

section \<open>Helper lemmas: the views\<close>


lemma map_plot_agree:
  assumes r1: "covid_data w d = (Inr frame, w1, d1)"
    and r2: "covid_data w1 d1 = (Inr frame, w2, d2)"
  shows "map_plot w d =
           (Inr \<lparr>map_data = filter (\<lambda>r. Date r = map_plot_date d) frame,
                 map_assigned =
                   (if use_log_scale d
                    then Some (''log('' @ variable_name (plotted_variable d) @ '')'',
                               map (np_log10 w)
                                 (map (column (plotted_variable d))
                                    (filter (\<lambda>r. Date r = map_plot_date d) frame)))
                    else None),
                 map_locations = ''iso_alpha'',
                 map_color =
                   (if use_log_scale d
                    then ''log('' @ variable_name (plotted_variable d) @ '')''
                    else variable_name (plotted_variable d)),
                 map_hover_name = ''Country'',
                 map_hover_data = [''Confirmed'', ''Recovered'', ''Deaths'']\<rparr>, w2, d2)"
proof -
  have "map_plot_date d2 = map_plot_date d" "plotted_variable d2 = plotted_variable d"
    "use_log_scale d2 = use_log_scale d" "np_log10 w2 = np_log10 w"
    using covid_data_params [OF r1] covid_data_params [OF r2] by simp_all
  then show ?thesis
    by (simp add: map_plot_def r1 r2 loc_mask_map Let_def)
qed



lemma map_plot_fresh:
  assumes "stale w d = Inr False" and "stale (tick w) d = Inr False"
  shows "map_plot w d =
           (Inr \<lparr>map_data = filter (\<lambda>r. Date r = map_plot_date d) (cached_covid_data d),
                 map_assigned =
                   (if use_log_scale d
                    then Some (''log('' @ variable_name (plotted_variable d) @ '')'',
                               map (np_log10 w)
                                 (map (column (plotted_variable d))
                                    (filter (\<lambda>r. Date r = map_plot_date d) (cached_covid_data d))))
                    else None),
                 map_locations = ''iso_alpha'',
                 map_color =
                   (if use_log_scale d
                    then ''log('' @ variable_name (plotted_variable d) @ '')''
                    else variable_name (plotted_variable d)),
                 map_hover_name = ''Country'',
                 map_hover_data = [''Confirmed'', ''Recovered'', ''Deaths'']\<rparr>,
            tick (tick w), d)"
  using map_plot_agree [OF covid_data_fresh [OF assms(1)] covid_data_fresh [OF assms(2)]] .


text \<open>The flag \<^verbatim>\<open>use_log_scale\<close> plays no part in a reload or a read.\<close>

lemma update_covid_data_log_scale:
  "update_covid_data w (d\<lparr>use_log_scale := b\<rparr>) =
     (case update_covid_data w d of (r, w', d') \<Rightarrow> (r, w', d'\<lparr>use_log_scale := b\<rparr>))"
  by (simp add: update_covid_data_def Let_def split: prod.splits sum.splits)

lemma covid_data_log_scale:
  "covid_data w (d\<lparr>use_log_scale := b\<rparr>) =
     (case covid_data w d of (r, w', d') \<Rightarrow> (r, w', d'\<lparr>use_log_scale := b\<rparr>))"
  by (simp add: covid_data_cases stale_def update_covid_data_log_scale
      split: prod.splits sum.splits bool.splits)

section \<open>The example data, evaluated\<close>

lemma april_loaded:
  "map (\<lambda>r. r\<lparr>iso_alpha := iso_table (Country r)\<rparr>) (groupby_agg april_csv) = april_frame"
  by (simp add: groupby_agg_def april_csv_def april_frame_def group_key_def agg_group_def
      iso_table_def)

lemma later_loaded:
  "map (\<lambda>r. r\<lparr>iso_alpha := iso_table (Country r)\<rparr>) (groupby_agg later_csv) = later_frame"
  by (simp add: groupby_agg_def later_csv_def later_frame_def group_key_def agg_group_def
      iso_table_def)




text \<open>The staleness test on the example frames, on 2020-04-02 and on 2020-04-15.\<close>

lemma april_fresh:
  "today w = 737517 \<Longrightarrow> cached_covid_data d = april_frame \<Longrightarrow> stale w d = Inr False"
  by (simp add: stale_def timestamp_less_def series_max_def april_frame_def)




lemma init_april:
  "init april_world =
     (Inr (april_dashboard\<lparr>map_plot_date := 737517\<rparr>),
      april_world\<lparr>requests := 1,
        logger := [''Initializing'', ''Loading COVID data'', ''Initialized'']\<rparr>)"
proof -
  let ?w = "info ''Initializing'' april_world"
  have "remote ?w (requests ?w) = Inr april_csv"
    by (simp add: april_world_def info_def)
  moreover have "april_csv \<noteq> []"
    by (simp add: april_csv_def)
  moreover have "iso3166 ?w = iso_table" "requests ?w = 0" "logger ?w = [''Initializing'']"
    by (simp_all add: april_world_def info_def)
  moreover have "Min (Date ` set april_frame) = 737516" "Max (Date ` set april_frame) = 737517"
    "sort (unique (map Country april_frame)) = [''Czechia'', ''Kosovo'', ''Slovakia'']"
    "series_max (map Date april_frame) = Some 737517"
    by (simp_all add: april_frame_def unique_def series_max_def)
  ultimately show ?thesis
    using update_covid_data_loaded [of ?w april_csv class_defaults]
    by (simp add: init_def april_loaded timestamp_date_def class_defaults_def
        april_dashboard_def info_def april_world_def)
qed

lemma later_reload:
  "update_covid_data later_world april_dashboard =
     (Inr (),
      later_world\<lparr>logger := logger later_world @ [''Loading COVID data''], requests := 2\<rparr>,
      april_dashboard\<lparr>cached_covid_data := later_frame,
        map_plot_date_bounds := (737520, 737529), countries_objects := [''Czechia'']\<rparr>)"
proof -
  have "remote later_world (requests later_world) = Inr later_csv"
    by (simp add: later_world_def)
  moreover have "later_csv \<noteq> []"
    by (simp add: later_csv_def)
  moreover have "iso3166 later_world = iso_table" "requests later_world = 1"
    by (simp_all add: later_world_def)
  moreover have "Min (Date ` set later_frame) = 737520" "Max (Date ` set later_frame) = 737529"
    "sort (unique (map Country later_frame)) = [''Czechia'']"
    by (simp_all add: later_frame_def unique_def)
  ultimately show ?thesis
    using update_covid_data_loaded [of later_world later_csv april_dashboard]
    by (simp add: later_loaded)
qed



section \<open>The claims about the loader\<close>

text \<open>
  Claim C8. For every country name, a lookup of the ISO alpha-3 code that fails is
  recovered inside \<^verbatim>\<open>country_alpha3\<close>: the function returns \<^verbatim>\<open>None\<close> and never raises, so
  a download that has succeeded always becomes a frame, one row for each group, in which
  \<^verbatim>\<open>iso_alpha\<close> of a row is the code of its country where the table has one and is empty
  where it has none.
\<close>

theorem lookup_failure_recovered:
  assumes "remote w (requests w) = Inr raw"
  shows "country_alpha3 (iso3166 w) c = Inr (iso3166 w c) \<and>
         fst (get_covid_data w) =
           Inr (map (\<lambda>r. r\<lparr>iso_alpha := iso3166 w (Country r)\<rparr>) (groupby_agg raw))"
  using get_covid_data_loaded [OF assms] by (simp add: country_alpha3_total)

text \<open>The example download: Kosovo has no code, and loading completes.\<close>

theorem lookup_failure_recovered_witness:
  "remote april_world (requests april_world) = Inr april_csv \<and>
   country_alpha3 (iso3166 april_world) ''Kosovo'' = Inr None \<and>
   country_alpha3 (iso3166 april_world) ''Czechia'' = Inr (Some ''CZE'') \<and>
   fst (get_covid_data april_world) = Inr april_frame"
proof -
  have h: "remote april_world (requests april_world) = Inr april_csv"
    by (simp add: april_world_def)
  have t: "iso3166 april_world = iso_table"
    by (simp add: april_world_def)
  show ?thesis
    using h lookup_failure_recovered [OF h, of "''Kosovo''"]
      lookup_failure_recovered [OF h, of "''Czechia''"]
    by (simp add: t april_loaded) (simp add: iso_table_def)
qed

section \<open>The claims about reading the data\<close>

text \<open>
  Claim C6. A read of the property \<^verbatim>\<open>covid_data\<close> reloads exactly when the cached frame is
  stale in the words of the spec (its most recent date is more than one day older than the
  current date, the date that the read gets from the clock): then the read runs
  \<^verbatim>\<open>update_covid_data\<close>, which makes one download and logs it. Otherwise the read makes no
  download and no log record and leaves the dashboard as it is (the world has changed by
  the one call of the clock); it returns the cached frame, or, on an empty frame, which has
  no most recent date, raises the \<^verbatim>\<open>TypeError\<close> of the comparison.
\<close>

theorem reload_exactly_when_stale:
  "(spec_stale (today w) (cached_covid_data d) \<longrightarrow>
      snd (covid_data w d) = snd (update_covid_data (tick w) d) \<and>
      requests (fst (snd (covid_data w d))) = Suc (requests w) \<and>
      logger (fst (snd (covid_data w d))) = logger w @ [''Loading COVID data'']) \<and>
   (\<not> spec_stale (today w) (cached_covid_data d) \<longrightarrow>
      snd (covid_data w d) = (tick w, d) \<and>
      requests (fst (snd (covid_data w d))) = requests w \<and>
      logger (fst (snd (covid_data w d))) = logger w \<and>
      fst (covid_data w d) =
        (if cached_covid_data d = [] then Inl TypeError else Inr (cached_covid_data d)))"
proof (cases "cached_covid_data d = []")
  case True
  then have "\<not> spec_stale (today w) (cached_covid_data d)"
    by (simp add: spec_stale_def)
  then show ?thesis
    using True by (simp add: covid_data_empty tick_fields)
next
  case False
  note test = stale_iff_spec [OF False, of w]
  show ?thesis
  proof (cases "spec_stale (today w) (cached_covid_data d)")
    case True
    then have "snd (covid_data w d) = snd (update_covid_data (tick w) d)"
      using test by (simp add: covid_data_stale)
    then show ?thesis
      using True update_covid_data_requests [of "tick w" d]
        update_covid_data_logger [of "tick w" d]
      by (simp add: tick_fields)
  next
    case stays: False
    then have "covid_data w d = (Inr (cached_covid_data d), tick w, d)"
      using test by (simp add: covid_data_fresh)
    then show ?thesis
      using stays False by (simp add: tick_fields)
  qed
qed

text \<open>
  The example dashboard is read two weeks after its last date, and on the day after it;
  a dashboard with an empty frame is read.
\<close>

theorem reload_exactly_when_stale_witness:
  "spec_stale (today later_world) (cached_covid_data april_dashboard) \<and>
   requests (fst (snd (covid_data later_world april_dashboard))) = Suc (requests later_world) \<and>
   \<not> spec_stale (today april_world) (cached_covid_data april_dashboard) \<and>
   covid_data april_world april_dashboard = (Inr april_frame, tick april_world, april_dashboard) \<and>
   \<not> spec_stale (today april_world) (cached_covid_data (april_dashboard\<lparr>cached_covid_data := []\<rparr>)) \<and>
   covid_data april_world (april_dashboard\<lparr>cached_covid_data := []\<rparr>) =
     (Inl TypeError, tick april_world, april_dashboard\<lparr>cached_covid_data := []\<rparr>)"
proof -
  have c: "cached_covid_data april_dashboard = april_frame" "april_frame \<noteq> []"
    by (simp_all add: april_dashboard_def april_frame_def)
  have s: "spec_stale (today later_world) (cached_covid_data april_dashboard)"
    by (simp add: c spec_stale_def today_def later_world_def) (simp add: april_frame_def)
  have f: "\<not> spec_stale (today april_world) (cached_covid_data april_dashboard)"
    by (simp add: c spec_stale_def today_def april_world_def) (simp add: april_frame_def)
  have e: "\<not> spec_stale (today april_world)
      (cached_covid_data (april_dashboard\<lparr>cached_covid_data := []\<rparr>))"
    by (simp add: spec_stale_def)
  have "requests (fst (snd (covid_data later_world april_dashboard))) = Suc (requests later_world)"
    using s reload_exactly_when_stale [of later_world april_dashboard] by blast
  moreover have "snd (covid_data april_world april_dashboard) = (tick april_world, april_dashboard)"
    "fst (covid_data april_world april_dashboard) =
       (if cached_covid_data april_dashboard = [] then Inl TypeError
        else Inr (cached_covid_data april_dashboard))"
    using f reload_exactly_when_stale [of april_world april_dashboard] by blast+
  moreover have
    "snd (covid_data april_world (april_dashboard\<lparr>cached_covid_data := []\<rparr>)) =
       (tick april_world, april_dashboard\<lparr>cached_covid_data := []\<rparr>)"
    "fst (covid_data april_world (april_dashboard\<lparr>cached_covid_data := []\<rparr>)) =
       (if cached_covid_data (april_dashboard\<lparr>cached_covid_data := []\<rparr>) = [] then Inl TypeError
        else Inr (cached_covid_data (april_dashboard\<lparr>cached_covid_data := []\<rparr>)))"
    using e reload_exactly_when_stale [of april_world "april_dashboard\<lparr>cached_covid_data := []\<rparr>"]
    by blast+
  ultimately show ?thesis
    using s f e c by (simp add: prod_eq_iff)
qed

text \<open>
  Claim C3. Reading the data twice without crossing the staleness threshold is idempotent.
  A first read of a frame that has a most recent date and is not stale returns the frame,
  makes no download and no log record, and leaves the dashboard as it is. And whatever the
  first read did (it may have reloaded), when the frame that it returned is not stale at
  the second read (in any later world \<open>w2\<close>), the second read returns the same data, again
  without a download or a log record: the world changes by the call of the clock only.
\<close>

theorem second_read_is_idempotent:
  "(cached_covid_data d \<noteq> [] \<and> \<not> spec_stale (today w) (cached_covid_data d) \<longrightarrow>
      covid_data w d = (Inr (cached_covid_data d), tick w, d)) \<and>
   (covid_data w d = (Inr df, w1, d1) \<and> \<not> spec_stale (today w2) (cached_covid_data d1) \<longrightarrow>
      covid_data w2 d1 = (Inr df, tick w2, d1))"
proof -
  have first: "covid_data w d = (Inr (cached_covid_data d), tick w, d)"
    if "cached_covid_data d \<noteq> [] \<and> \<not> spec_stale (today w) (cached_covid_data d)"
    using that stale_iff_spec [of d w] by (simp add: covid_data_fresh)
  have second: "covid_data w2 d1 = (Inr df, tick w2, d1)"
    if r: "covid_data w d = (Inr df, w1, d1)"
      and f: "\<not> spec_stale (today w2) (cached_covid_data d1)"
  proof -
    have c: "cached_covid_data d1 = df" "cached_covid_data d1 \<noteq> []"
      using covid_data_returns_cached [OF r] by simp_all
    then have "stale w2 d1 = Inr False"
      using f stale_iff_spec [of d1 w2] by simp
    then show ?thesis
      using c by (simp add: covid_data_fresh)
  qed
  show ?thesis using first second by blast
qed

text \<open>
  The example dashboard, read on 2020-04-02 and again when the clock shows 2020-04-03.
\<close>

theorem second_read_is_idempotent_witness:
  "cached_covid_data april_dashboard \<noteq> [] \<and>
   \<not> spec_stale (today april_world) (cached_covid_data april_dashboard) \<and>
   covid_data april_world april_dashboard = (Inr april_frame, tick april_world, april_dashboard) \<and>
   \<not> spec_stale (today ((tick april_world)\<lparr>clock := (\<lambda>n. 737518)\<rparr>))
       (cached_covid_data april_dashboard) \<and>
   covid_data ((tick april_world)\<lparr>clock := (\<lambda>n. 737518)\<rparr>) april_dashboard =
     (Inr april_frame, tick ((tick april_world)\<lparr>clock := (\<lambda>n. 737518)\<rparr>), april_dashboard)"
proof -
  let ?w2 = "(tick april_world)\<lparr>clock := (\<lambda>n. 737518)\<rparr>"
  have c: "cached_covid_data april_dashboard = april_frame" "april_frame \<noteq> []"
    by (simp_all add: april_dashboard_def april_frame_def)
  have f: "\<not> spec_stale (today april_world) (cached_covid_data april_dashboard)"
    by (simp add: c spec_stale_def today_def april_world_def) (simp add: april_frame_def)
  have g: "\<not> spec_stale (today ?w2) (cached_covid_data april_dashboard)"
    by (simp add: c spec_stale_def today_def) (simp add: april_frame_def)
  have 1: "covid_data april_world april_dashboard =
      (Inr april_frame, tick april_world, april_dashboard)"
    using f c second_read_is_idempotent [of april_dashboard april_world] by simp
  have 2: "covid_data ?w2 april_dashboard = (Inr april_frame, tick ?w2, april_dashboard)"
    using 1 g second_read_is_idempotent [of april_dashboard april_world april_frame
        "tick april_world" april_dashboard ?w2]
    by blast
  show ?thesis
    using c f g 1 2 by simp
qed

section \<open>The claim about a reload\<close>

text \<open>
  What \<^verbatim>\<open>update_covid_data\<close> does after a download that succeeds and has rows: it stores
  the new frame, sets the bounds of \<^verbatim>\<open>map_plot_date\<close> to (min date, max date) of the new
  frame, and does not assign the selected date.
\<close>

lemma reload_sets_bounds_keeps_date:
  assumes "remote w (requests w) = Inr raw" and "raw \<noteq> []"
  shows "fst (update_covid_data w d) = Inr () \<and>
         fst (get_covid_data (info ''Loading COVID data'' w)) =
           Inr (cached_covid_data (snd (snd (update_covid_data w d)))) \<and>
         map_plot_date_bounds (snd (snd (update_covid_data w d))) =
           (Min (Date ` set (cached_covid_data (snd (snd (update_covid_data w d))))),
            Max (Date ` set (cached_covid_data (snd (snd (update_covid_data w d)))))) \<and>
         map_plot_date (snd (snd (update_covid_data w d))) = map_plot_date d"
proof -
  obtain w' d' where u: "update_covid_data w d = (Inr (), w', d')"
    using update_covid_data_loaded [OF assms, of d] by simp
  have "d' = d\<lparr>cached_covid_data := cached_covid_data d',
                map_plot_date_bounds := map_plot_date_bounds d',
                countries_objects := countries_objects d'\<rparr>"
    using update_covid_data_result [OF u] by blast
  then have "map_plot_date d' = map_plot_date (d\<lparr>cached_covid_data := cached_covid_data d',
                map_plot_date_bounds := map_plot_date_bounds d',
                countries_objects := countries_objects d'\<rparr>)"
    by simp
  then have "map_plot_date d' = map_plot_date d"
    by simp
  then show ?thesis
    using u update_covid_data_result [OF u] by simp
qed

text \<open>
  Claim C1. The claim holds for the bounds and fails for the selected date, where the code
  misses what its own comment at the declaration of \<^verbatim>\<open>map_plot_date\<close> announces (the
  selected date and the bounds are changed in \<^verbatim>\<open>update_covid_data\<close>) and what \<^verbatim>\<open>__init__\<close>
  does right after the first load. In the example the new frame has a later maximum date,
  the date selected before (2020-04-01) lies below the new lower bound (2020-04-05), and
  after the reload it is still the selected date, not the nearest new bound.
\<close>

theorem reload_does_not_clamp:
  "snd (map_plot_date_bounds april_dashboard)
     < snd (map_plot_date_bounds (snd (snd (update_covid_data later_world april_dashboard)))) \<and>
   map_plot_date (snd (snd (update_covid_data later_world april_dashboard)))
     < fst (map_plot_date_bounds (snd (snd (update_covid_data later_world april_dashboard)))) \<and>
   map_plot_date (snd (snd (update_covid_data later_world april_dashboard)))
     \<noteq> spec_clamp (map_plot_date_bounds (snd (snd (update_covid_data later_world april_dashboard))))
         (map_plot_date april_dashboard)"
  by (simp add: later_reload spec_clamp_def) (simp add: april_dashboard_def)

section \<open>The claim about the purity of the views\<close>




section \<open>The claims about the parameters\<close>

text \<open>The declared domains of the three parameters that the spec names.\<close>

lemma in_domain_cases:
  "in_domain d P_map_plot_date (Day t) \<longleftrightarrow>
     fst (map_plot_date_bounds d) \<le> t \<and> t \<le> snd (map_plot_date_bounds d)"
  "in_domain d P_countries (Strs cs) \<longleftrightarrow> set cs \<subseteq> set (countries_objects d)"
  "in_domain d P_plotted_variable (Str s) \<longleftrightarrow> s = ''Confirmed'' \<or> s = ''Recovered'' \<or> s = ''Deaths''"
  by (auto simp: in_domain_def list_all_iff)

text \<open>
  Claim C7. An update of a parameter with a value outside its declared domain is rejected
  with a validation error and the dashboard keeps every value it held: for every parameter
  and every Python value, and in particular for a date outside the current bounds, a list
  of countries with a member that is not in the choice list, and a name of a variable that
  is none of the three.
\<close>

theorem out_of_domain_update_rejected:
  "(\<not> in_domain d p v \<longrightarrow> update d p v = (Inl ValidationError, d)) \<and>
   (t < fst (map_plot_date_bounds d) \<or> snd (map_plot_date_bounds d) < t \<longrightarrow>
      update d P_map_plot_date (Day t) = (Inl ValidationError, d)) \<and>
   (c \<in> set cs \<and> c \<notin> set (countries_objects d) \<longrightarrow>
      update d P_countries (Strs cs) = (Inl ValidationError, d)) \<and>
   (s \<noteq> ''Confirmed'' \<and> s \<noteq> ''Recovered'' \<and> s \<noteq> ''Deaths'' \<longrightarrow>
      update d P_plotted_variable (Str s) = (Inl ValidationError, d))"
proof -
  have general: "update d p v = (Inl ValidationError, d)" if "\<not> in_domain d p v" for p v
    using that by (simp add: update_def)
  have "\<not> in_domain d P_map_plot_date (Day t)"
    if "t < fst (map_plot_date_bounds d) \<or> snd (map_plot_date_bounds d) < t"
    using that by (auto simp: in_domain_cases)
  moreover have "\<not> in_domain d P_countries (Strs cs)"
    if "c \<in> set cs \<and> c \<notin> set (countries_objects d)"
    using that by (auto simp: in_domain_cases)
  moreover have "\<not> in_domain d P_plotted_variable (Str s)"
    if "s \<noteq> ''Confirmed'' \<and> s \<noteq> ''Recovered'' \<and> s \<noteq> ''Deaths''"
    using that by (simp add: in_domain_cases)
  ultimately show ?thesis
    using general by blast
qed

text \<open>
  The example dashboard rejects \<^verbatim>\<open>None\<close> for the flag, the day after its upper bound, a
  country it does not know and a variable it does not know.
\<close>

theorem out_of_domain_update_rejected_witness:
  "\<not> in_domain april_dashboard P_use_log_scale Py_None \<and>
   update april_dashboard P_use_log_scale Py_None = (Inl ValidationError, april_dashboard) \<and>
   737518 > snd (map_plot_date_bounds april_dashboard) \<and>
   update april_dashboard P_map_plot_date (Day 737518) = (Inl ValidationError, april_dashboard) \<and>
   ''Atlantis'' \<notin> set (countries_objects april_dashboard) \<and>
   update april_dashboard P_countries (Strs [''Czechia'', ''Atlantis''])
     = (Inl ValidationError, april_dashboard) \<and>
   update april_dashboard P_plotted_variable (Str ''Tested'')
     = (Inl ValidationError, april_dashboard)"
proof -
  have 1: "\<not> in_domain april_dashboard P_use_log_scale Py_None"
    by (simp add: in_domain_def)
  have 2: "737518 > snd (map_plot_date_bounds april_dashboard)"
    by (simp add: april_dashboard_def)
  have 3: "''Atlantis'' \<in> set [''Czechia'', ''Atlantis''] \<and>
           ''Atlantis'' \<notin> set (countries_objects april_dashboard)"
    by (simp add: april_dashboard_def)
  have 4: "''Tested'' \<noteq> ''Confirmed'' \<and> ''Tested'' \<noteq> ''Recovered'' \<and> ''Tested'' \<noteq> ''Deaths''"
    by simp
  have "update april_dashboard P_use_log_scale Py_None = (Inl ValidationError, april_dashboard)"
    using 1 out_of_domain_update_rejected
      [of april_dashboard P_use_log_scale Py_None 0 "[]" "[]" "[]"]
    by (elim conjE) simp
  moreover have "update april_dashboard P_map_plot_date (Day 737518)
      = (Inl ValidationError, april_dashboard)"
    using 2 out_of_domain_update_rejected
      [of april_dashboard P_use_log_scale Py_None 737518 "[]" "[]" "[]"]
    by (elim conjE) simp
  moreover have "update april_dashboard P_countries (Strs [''Czechia'', ''Atlantis''])
      = (Inl ValidationError, april_dashboard)"
    using 3 out_of_domain_update_rejected
      [of april_dashboard P_use_log_scale Py_None 0 "''Atlantis''" "[''Czechia'', ''Atlantis'']" "[]"]
    by (elim conjE) simp
  moreover have "update april_dashboard P_plotted_variable (Str ''Tested'')
      = (Inl ValidationError, april_dashboard)"
    using 4 out_of_domain_update_rejected
      [of april_dashboard P_use_log_scale Py_None 0 "[]" "[]" "''Tested''"]
    by (elim conjE) simp
  ultimately show ?thesis
    using 1 2 3 by simp
qed

text \<open>
  Claim C10. Recomputation follows the declared dependencies: after an update of one
  parameter, a view is invoked again exactly when it declares that parameter. An update of
  \<^verbatim>\<open>use_log_scale\<close> recomputes \<^verbatim>\<open>plot\<close> and \<^verbatim>\<open>map_plot\<close> and not the summary table
  \<^verbatim>\<open>selected_day_numbers\<close>, which declares the selected date and the countries only.
\<close>

theorem recompute_follows_dependencies:
  "(v \<in> set (recomputed p) \<longleftrightarrow> p \<in> set (depends v)) \<and>
   recomputed P_use_log_scale = [View_plot, View_map_plot] \<and>
   View_selected_day_numbers \<notin> set (recomputed P_use_log_scale)"
proof -
  have "v \<in> set views"
    by (cases v) (simp_all add: views_def)
  then have "v \<in> set (recomputed p) \<longleftrightarrow> p \<in> set (depends v)"
    by (simp add: recomputed_def)
  moreover have "recomputed P_use_log_scale = [View_plot, View_map_plot]"
    by (simp add: recomputed_def views_def)
  ultimately show ?thesis by simp
qed

section \<open>The claim about the logarithmic scale\<close>

lemma covid_data_requests:
  assumes "covid_data w d = (r, w', d')"
  shows "requests w \<le> requests w'"
proof (cases "stale w d")
  case (Inl e)
  then show ?thesis using assms by (auto simp: covid_data_cases tick_fields)
next
  case (Inr b)
  show ?thesis
  proof (cases b)
    case False
    then show ?thesis using assms Inr by (auto simp: covid_data_cases tick_fields)
  next
    case True
    then obtain r0 where u: "update_covid_data (tick w) d = (r0, w', d')"
      using assms Inr by (auto simp: covid_data_cases split: prod.splits sum.splits)
    show ?thesis
      using update_covid_data_requests [of "tick w" d] u by (simp add: tick_fields)
  qed
qed

text \<open>A view that makes no download leaves the dashboard as it is.\<close>

lemma map_plot_no_download:
  assumes "requests (fst (snd (map_plot w d))) = requests w"
  shows "snd (snd (map_plot w d)) = d"
proof -
  obtain r1 w1 d1 where c1: "covid_data w d = (r1, w1, d1)"
    by (cases "covid_data w d") auto
  obtain r2 w2 d2 where c2: "covid_data w1 d1 = (r2, w2, d2)"
    by (cases "covid_data w1 d1") auto
  note m1 = covid_data_requests [OF c1] and m2 = covid_data_requests [OF c2]
  have k1: "requests w1 = requests w \<Longrightarrow> d1 = d"
    and k2: "requests w2 = requests w1 \<Longrightarrow> d2 = d1"
    using covid_data_frame [OF c1] covid_data_frame [OF c2] by blast+
  show ?thesis
  proof (cases r1)
    case (Inl e)
    then have "map_plot w d = (Inl e, w1, d1)"
      by (simp add: map_plot_def c1)
    then show ?thesis using assms k1 by simp
  next
    case (Inr frame)
    then have "snd (map_plot w d) = (w2, d2)"
      by (simp add: map_plot_def c1 c2 Let_def split: sum.split)
    then have "requests w2 = requests w"
      using assms by simp
    then have "requests w1 = requests w" "requests w2 = requests w1"
      using m1 m2 by simp_all
    then show ?thesis
      using k1 k2 \<open>snd (map_plot w d) = (w2, d2)\<close> by simp
  qed
qed

text \<open>
  Claim C5. For every world and dashboard, the flag \<^verbatim>\<open>use_log_scale\<close> does not change what
  is stored: \<^verbatim>\<open>map_plot\<close> with the flag on leaves the same world and the same dashboard
  (the flag apart) as with the flag off; when both reads of the view find the frame not
  stale, and whenever the view makes no download, the cached frame is the one that was
  cached. With the flag off the map is coloured by the column of the selected variable and
  no column is added; with the flag on the map gets the same rows, with their
  \<^verbatim>\<open>Confirmed\<close>, \<^verbatim>\<open>Recovered\<close> and \<^verbatim>\<open>Deaths\<close> as they are, and one added column
  \<^verbatim>\<open>log(<variable>)\<close> that holds \<^verbatim>\<open>np.log10\<close> of the selected variable and colours the map.
\<close>

theorem log_scale_derives_a_column:
  "fst (snd (map_plot w (d\<lparr>use_log_scale := True\<rparr>)))
     = fst (snd (map_plot w (d\<lparr>use_log_scale := False\<rparr>))) \<and>
   snd (snd (map_plot w (d\<lparr>use_log_scale := True\<rparr>)))
     = (snd (snd (map_plot w (d\<lparr>use_log_scale := False\<rparr>))))\<lparr>use_log_scale := True\<rparr> \<and>
   (stale w d = Inr False \<and> stale (tick w) d = Inr False \<longrightarrow>
      cached_covid_data (snd (snd (map_plot w (d\<lparr>use_log_scale := True\<rparr>))))
        = cached_covid_data d) \<and>
   (requests (fst (snd (map_plot w (d\<lparr>use_log_scale := True\<rparr>)))) = requests w \<longrightarrow>
      cached_covid_data (snd (snd (map_plot w (d\<lparr>use_log_scale := True\<rparr>))))
        = cached_covid_data d) \<and>
   (case fst (map_plot w (d\<lparr>use_log_scale := False\<rparr>)) of
      Inl e \<Rightarrow> fst (map_plot w (d\<lparr>use_log_scale := True\<rparr>)) = Inl e
    | Inr m \<Rightarrow>
        map_assigned m = None \<and> map_color m = variable_name (plotted_variable d) \<and>
        fst (map_plot w (d\<lparr>use_log_scale := True\<rparr>)) =
          Inr (m\<lparr>map_assigned :=
                   Some (''log('' @ variable_name (plotted_variable d) @ '')'',
                         map (np_log10 w) (map (column (plotted_variable d)) (map_data m))),
                 map_color := ''log('' @ variable_name (plotted_variable d) @ '')''\<rparr>))"
proof -
  obtain r1 w1 d1 where c1: "covid_data w d = (r1, w1, d1)"
    by (cases "covid_data w d") auto
  obtain r2 w2 d2 where c2: "covid_data w1 d1 = (r2, w2, d2)"
    by (cases "covid_data w1 d1") auto
  have b1: "covid_data w (d\<lparr>use_log_scale := b\<rparr>) = (r1, w1, d1\<lparr>use_log_scale := b\<rparr>)" for b
    by (simp add: covid_data_log_scale c1)
  have b2: "covid_data w1 (d1\<lparr>use_log_scale := b\<rparr>) = (r2, w2, d2\<lparr>use_log_scale := b\<rparr>)" for b
    by (simp add: covid_data_log_scale c2)
  have p: "plotted_variable d2 = plotted_variable d" "np_log10 w2 = np_log10 w"
    using covid_data_params [OF c1] covid_data_params [OF c2] by simp_all
  have fresh: "cached_covid_data (snd (snd (map_plot w (d\<lparr>use_log_scale := True\<rparr>))))
        = cached_covid_data d"
    if "stale w d = Inr False \<and> stale (tick w) d = Inr False"
  proof -
    have "stale w (d\<lparr>use_log_scale := True\<rparr>) = Inr False"
      "stale (tick w) (d\<lparr>use_log_scale := True\<rparr>) = Inr False"
      using that by (simp_all add: stale_def)
    then show ?thesis by (simp add: map_plot_fresh)
  qed
  have quiet: "cached_covid_data (snd (snd (map_plot w (d\<lparr>use_log_scale := True\<rparr>))))
        = cached_covid_data d"
    if "requests (fst (snd (map_plot w (d\<lparr>use_log_scale := True\<rparr>)))) = requests w"
    using map_plot_no_download [OF that] by simp
  have rest: "fst (snd (map_plot w (d\<lparr>use_log_scale := True\<rparr>)))
     = fst (snd (map_plot w (d\<lparr>use_log_scale := False\<rparr>))) \<and>
   snd (snd (map_plot w (d\<lparr>use_log_scale := True\<rparr>)))
     = (snd (snd (map_plot w (d\<lparr>use_log_scale := False\<rparr>))))\<lparr>use_log_scale := True\<rparr> \<and>
   (case fst (map_plot w (d\<lparr>use_log_scale := False\<rparr>)) of
      Inl e \<Rightarrow> fst (map_plot w (d\<lparr>use_log_scale := True\<rparr>)) = Inl e
    | Inr m \<Rightarrow>
        map_assigned m = None \<and> map_color m = variable_name (plotted_variable d) \<and>
        fst (map_plot w (d\<lparr>use_log_scale := True\<rparr>)) =
          Inr (m\<lparr>map_assigned :=
                   Some (''log('' @ variable_name (plotted_variable d) @ '')'',
                         map (np_log10 w) (map (column (plotted_variable d)) (map_data m))),
                 map_color := ''log('' @ variable_name (plotted_variable d) @ '')''\<rparr>))"
    by (simp add: map_plot_def b1 b2 p Let_def split: sum.split)
  show ?thesis using rest fresh quiet by blast
qed

text \<open>
  The example dashboard on 2020-04-01 with the flag on: the map is coloured by
  \<^verbatim>\<open>log(Confirmed)\<close>, and the confirmed cases are still 1000 and 500.
\<close>

theorem log_scale_derives_a_column_witness:
  "stale april_world april_dashboard = Inr False \<and>
   stale (tick april_world) april_dashboard = Inr False \<and>
   cached_covid_data (snd (snd (map_plot april_world (april_dashboard\<lparr>use_log_scale := True\<rparr>))))
     = april_frame \<and>
   map_color (projr (fst (map_plot april_world (april_dashboard\<lparr>use_log_scale := True\<rparr>))))
     = ''log(Confirmed)'' \<and>
   map_assigned (projr (fst (map_plot april_world (april_dashboard\<lparr>use_log_scale := True\<rparr>))))
     = Some (''log(Confirmed)'', [Log10 1000, Log10 500]) \<and>
   map (column Var_Confirmed)
     (map_data (projr (fst (map_plot april_world (april_dashboard\<lparr>use_log_scale := True\<rparr>)))))
     = [1000, 500]"
proof -
  have c: "cached_covid_data (april_dashboard\<lparr>use_log_scale := b\<rparr>) = april_frame"
    "cached_covid_data april_dashboard = april_frame" for b
    by (simp_all add: april_dashboard_def)
  have t: "today april_world = 737517" "today (tick april_world) = 737517"
    by (simp_all add: today_def tick_def april_world_def)
  have f: "stale april_world april_dashboard = Inr False"
    "stale (tick april_world) april_dashboard = Inr False"
    using april_fresh [OF t(1) c(2)] april_fresh [OF t(2) c(2)] by simp_all
  have off: "fst (map_plot april_world (april_dashboard\<lparr>use_log_scale := False\<rparr>)) =
      Inr \<lparr>map_data = [april_frame ! 0, april_frame ! 3], map_assigned = None,
            map_locations = ''iso_alpha'', map_color = ''Confirmed'',
            map_hover_name = ''Country'',
            map_hover_data = [''Confirmed'', ''Recovered'', ''Deaths'']\<rparr>"
    by (simp add: map_plot_fresh [OF april_fresh [OF t(1) c(1)] april_fresh [OF t(2) c(1)]])
      (simp add: april_dashboard_def april_frame_def)
  have v: "plotted_variable april_dashboard = Var_Confirmed" "np_log10 april_world = Log10"
    by (simp_all add: april_dashboard_def april_world_def)
  note inst = log_scale_derives_a_column [of april_world april_dashboard]
  have kept: "cached_covid_data
      (snd (snd (map_plot april_world (april_dashboard\<lparr>use_log_scale := True\<rparr>)))) = april_frame"
  proof -
    have "cached_covid_data
        (snd (snd (map_plot april_world (april_dashboard\<lparr>use_log_scale := True\<rparr>))))
          = cached_covid_data april_dashboard"
      using f inst by blast
    then show ?thesis by (simp only: c(2))
  qed
  have "fst (map_plot april_world (april_dashboard\<lparr>use_log_scale := True\<rparr>)) =
      Inr \<lparr>map_data = [april_frame ! 0, april_frame ! 3],
           map_assigned = Some (''log(Confirmed)'',
             map Log10 (map (column Var_Confirmed) [april_frame ! 0, april_frame ! 3])),
           map_locations = ''iso_alpha'', map_color = ''log(Confirmed)'',
           map_hover_name = ''Country'',
           map_hover_data = [''Confirmed'', ''Recovered'', ''Deaths'']\<rparr>"
    using inst by (simp add: off v)
  then show ?thesis
    using f kept by (simp add: april_frame_def)
qed

section \<open>The claim about the series\<close>








section \<open>The claim about the summary table\<close>










end
